theory Spec2Isabelle
  imports Main "HOL-Library.AList" "HOL-Library.Word"
begin

section \<open>The V2 HTTP consumer facade of pact-go (consumer/http_v2.go)\<close>

text \<open>
  The Go file builds one expected HTTP interaction through a chain of method calls. Every
  method mutates the native interaction behind the pointer \<^verbatim>\<open>i.interaction.interaction\<close>
  and returns a handle; the handle types (\<^verbatim>\<open>UnconfiguredV2Interaction\<close>,
  \<^verbatim>\<open>V2InteractionWithRequest\<close>, ...) fix which methods may follow. The model keeps
  the heap explicit: native interactions and mock providers live in a \<open>World\<close> and are
  addressed by index, a method takes the receiver and the world and returns the new world
  with either the returned handle or the value of a panic.
\<close>

subsection \<open>Values handed to the matchers\<close>

datatype SpecificationVersion = V2 | V3

text \<open>
  A Go \<^verbatim>\<open>interface{}\<close> body or a \<^verbatim>\<open>matchers.Matcher\<close>. The plain Go values come
  first (\<open>GoString\<close> is the builtin \<^verbatim>\<open>string\<close>, the only case the type assertion
  \<^verbatim>\<open>body.(string)\<close> accepts), then \<^verbatim>\<open>matchers.String\<close> and the rule kinds of the
  specification's MatcherRule. The matchers package is not part of the sources at hand, the
  constructors follow section 3 of the specification. \<open>Decimal m d\<close> is the example
  \<open>m / 10 ^ d\<close>.
\<close>

datatype Value =
    GoNil
  | GoBool bool
  | GoInt int
  | GoString string
  | GoSlice "Value list"
  | GoMap "(string \<times> Value) list"
  | String string
  | Equality Value
  | Regex string string
  | TypeLike Value
  | Integer int
  | Decimal int nat
  | ArrayMinLike Value nat
  | ArrayMaxLike Value nat
  | ArrayMinMaxLike Value nat nat
  | ArrayContaining "Value list"
  | Includes string
  | FromProviderState string string
  | DateTimeGenerated string string

type_synonym Matcher = Value

type_synonym Method = string

type_synonym bytes = "8 word list"

datatype error =
    NilPointerDereference
  | InvalidInteractionSequenceError
  | UnsupportedForSpecVersionError
  | IncompatibleTypeError
  | ConfigurationError
  | EmptyContractError
  | TransportStartError
  | ExerciseError string
  | VerificationError "(string \<times> string \<times> string) list"
  | PersistenceError
  | AggregatedError "error list"

subsection \<open>The native interaction and the world\<close>

datatype BodySpec =
    NoBody
  | BodyJSON Value
  | BodyBinary bytes
  | BodyMultipartFile string string string
  | BodyRaw string bytes

record HTTPPart =
  headers :: "(string \<times> Matcher list) list"
  body :: BodySpec

record RequestSpec = HTTPPart +
  "method" :: string
  path :: "Matcher option"
  query :: "(string \<times> Matcher list) list"

record ResponseSpec = HTTPPart +
  status :: "int option"

text \<open>
  \<^verbatim>\<open>mockserver.Interaction\<close>, the builder target of section 3 of the specification:
  provider states with their parameters, the description, the request and the response.
\<close>

record NativeInteraction =
  states :: "(string \<times> (string \<times> Value) list) list"
  description :: string
  request :: RequestSpec
  response :: ResponseSpec

record MockHTTPProviderConfig =
  Consumer :: string
  Provider :: string
  Host :: string
  Port :: nat
  TLS :: bool

text \<open>The mock server keeps pointers to its interactions in insertion order.\<close>

record MockServer =
  interactions :: "nat list"

record httpMockProvider =
  config :: MockHTTPProviderConfig
  specificationVersion :: SpecificationVersion
  mockserver :: MockServer

text \<open>
  \<^verbatim>\<open>consumer.Interaction\<close>: the specification version and the pointer to the native
  interaction. The file never reassigns either field, so the wrapper is held by value.
\<close>

record Interaction =
  specificationVersion :: SpecificationVersion
  interaction :: nat

text \<open>
  The heap. \<open>heap w ! a\<close> is the native interaction at address \<open>a\<close>, \<open>providers w ! p\<close>
  the mock provider at address \<open>p\<close>; an address outside the list is a nil pointer.
  \<open>log w\<close> is what \<^verbatim>\<open>log.Println\<close> has written, \<open>observed w\<close> the exchanges the
  mock transport has seen, \<open>contracts w\<close> what the persistence collaborator has written and
  \<open>listening w\<close> the ports whose listener is up.
\<close>

record ContractAggregate =
  consumerName :: string
  providerName :: string
  version :: SpecificationVersion
  contents :: "NativeInteraction list"

record World =
  heap :: "NativeInteraction list"
  providers :: "httpMockProvider list"
  log :: "string list"
  observed :: "(string \<times> string) list"
  contracts :: "ContractAggregate list"
  listening :: "nat list"

type_synonym 'a result = "(error + 'a) \<times> World"

definition andThen :: "'a result \<Rightarrow> ('a \<Rightarrow> World \<Rightarrow> 'b result) \<Rightarrow> 'b result" where
  "andThen r f = (case r of (Inl e, w) \<Rightarrow> (Inl e, w) | (Inr x, w) \<Rightarrow> f x w)"

definition Println :: "string \<Rightarrow> World \<Rightarrow> World" where
  "Println s w = w\<lparr>log := log w @ [s]\<rparr>"

definition emptyInteraction :: "string \<Rightarrow> NativeInteraction" where
  "emptyInteraction d =
     \<lparr>states = [], description = d,
      request = \<lparr>headers = [], body = NoBody, method = [], path = None, query = []\<rparr>,
      response = \<lparr>headers = [], body = NoBody, status = None\<rparr>\<rparr>"

text \<open>
  Modelled from the spec: \<^verbatim>\<open>MockServer.NewInteraction\<close> is missing from the sources.
  It creates the empty interaction of section 3 under the given description and keeps it in
  the mock server's ordered collection (section 4.4, insertion order); a nil provider
  pointer panics.
\<close>

definition NewInteraction :: "string \<Rightarrow> nat \<Rightarrow> World \<Rightarrow> nat result" where
  "NewInteraction d p w =
     (if p < length (providers w) then
        (let a = length (heap w);
             pr = providers w ! p;
             ms = mockserver pr
         in (Inr a,
             w\<lparr>heap := heap w @ [emptyInteraction d],
               providers := (providers w)
                 [p := pr\<lparr>mockserver := ms\<lparr>interactions := interactions ms @ [a]\<rparr>\<rparr>]\<rparr>))
      else (Inl NilPointerDereference, w))"

text \<open>
  A method of the native interaction updates the object behind the pointer; through a nil
  pointer it panics and nothing is written.
\<close>

definition modify :: "nat \<Rightarrow> (NativeInteraction \<Rightarrow> NativeInteraction) \<Rightarrow> World \<Rightarrow> unit result" where
  "modify a f w =
     (if a < length (heap w) then (Inr (), w\<lparr>heap := (heap w)[a := f (heap w ! a)]\<rparr>)
      else (Inl NilPointerDereference, w))"

definition setEntries ::
  "(string \<times> Matcher list) list \<Rightarrow> (string \<times> Matcher list) list \<Rightarrow> (string \<times> Matcher list) list" where
  "setEntries kvs m = fold (\<lambda>kv. AList.update (fst kv) (snd kv)) kvs m"

text \<open>
  Modelled from the spec: the methods of \<^verbatim>\<open>mockserver.Interaction\<close> are missing from
  the sources. Each one writes the field of the Interaction of section 3 that its name says:
  \<^verbatim>\<open>Given\<close> appends one provider state with an empty parameter mapping (section 4.3),
  \<^verbatim>\<open>UponReceiving\<close> sets the description, the others set the parts of the request and
  of the response.
\<close>

definition native_Given :: "string \<Rightarrow> nat \<Rightarrow> World \<Rightarrow> unit result" where
  "native_Given state a = modify a (\<lambda>n. n\<lparr>states := states n @ [(state, [])]\<rparr>)"

definition native_UponReceiving :: "string \<Rightarrow> nat \<Rightarrow> World \<Rightarrow> unit result" where
  "native_UponReceiving d a = modify a (\<lambda>n. n\<lparr>description := d\<rparr>)"

definition native_WithRequest :: "string \<Rightarrow> Matcher \<Rightarrow> nat \<Rightarrow> World \<Rightarrow> unit result" where
  "native_WithRequest m p a =
     modify a (\<lambda>n. n\<lparr>request := (request n)\<lparr>method := m, path := Some p\<rparr>\<rparr>)"

definition native_WithQuery :: "(string \<times> Matcher list) list \<Rightarrow> nat \<Rightarrow> World \<Rightarrow> unit result" where
  "native_WithQuery q a =
     modify a (\<lambda>n. n\<lparr>request := (request n)\<lparr>query := setEntries q (query (request n))\<rparr>\<rparr>)"

definition native_WithRequestHeaders :: "(string \<times> Matcher list) list \<Rightarrow> nat \<Rightarrow> World \<Rightarrow> unit result" where
  "native_WithRequestHeaders h a =
     modify a (\<lambda>n. n\<lparr>request := (request n)\<lparr>headers := setEntries h (headers (request n))\<rparr>\<rparr>)"

definition native_WithResponseHeaders :: "(string \<times> Matcher list) list \<Rightarrow> nat \<Rightarrow> World \<Rightarrow> unit result" where
  "native_WithResponseHeaders h a =
     modify a (\<lambda>n. n\<lparr>response := (response n)\<lparr>headers := setEntries h (headers (response n))\<rparr>\<rparr>)"

definition setRequestBody :: "BodySpec \<Rightarrow> nat \<Rightarrow> World \<Rightarrow> unit result" where
  "setRequestBody b a = modify a (\<lambda>n. n\<lparr>request := (request n)\<lparr>body := b\<rparr>\<rparr>)"

definition setResponseBody :: "BodySpec \<Rightarrow> nat \<Rightarrow> World \<Rightarrow> unit result" where
  "setResponseBody b a = modify a (\<lambda>n. n\<lparr>response := (response n)\<lparr>body := b\<rparr>\<rparr>)"

definition native_WithJSONRequestBody :: "Value \<Rightarrow> nat \<Rightarrow> World \<Rightarrow> unit result" where
  "native_WithJSONRequestBody v = setRequestBody (BodyJSON v)"

definition native_WithBinaryRequestBody :: "bytes \<Rightarrow> nat \<Rightarrow> World \<Rightarrow> unit result" where
  "native_WithBinaryRequestBody b = setRequestBody (BodyBinary b)"

definition native_WithRequestMultipartFile :: "string \<Rightarrow> string \<Rightarrow> string \<Rightarrow> nat \<Rightarrow> World \<Rightarrow> unit result" where
  "native_WithRequestMultipartFile ct fn part = setRequestBody (BodyMultipartFile ct fn part)"

definition native_WithRequestBody :: "string \<Rightarrow> bytes \<Rightarrow> nat \<Rightarrow> World \<Rightarrow> unit result" where
  "native_WithRequestBody ct b = setRequestBody (BodyRaw ct b)"

definition native_WithStatus :: "int \<Rightarrow> nat \<Rightarrow> World \<Rightarrow> unit result" where
  "native_WithStatus s a = modify a (\<lambda>n. n\<lparr>response := (response n)\<lparr>status := Some s\<rparr>\<rparr>)"

definition native_WithJSONResponseBody :: "Value \<Rightarrow> nat \<Rightarrow> World \<Rightarrow> unit result" where
  "native_WithJSONResponseBody v = setResponseBody (BodyJSON v)"

definition native_WithBinaryResponseBody :: "bytes \<Rightarrow> nat \<Rightarrow> World \<Rightarrow> unit result" where
  "native_WithBinaryResponseBody b = setResponseBody (BodyBinary b)"

definition native_WithResponseMultipartFile :: "string \<Rightarrow> string \<Rightarrow> string \<Rightarrow> nat \<Rightarrow> World \<Rightarrow> unit result" where
  "native_WithResponseMultipartFile ct fn part = setResponseBody (BodyMultipartFile ct fn part)"

definition native_WithResponseBody :: "string \<Rightarrow> bytes \<Rightarrow> nat \<Rightarrow> World \<Rightarrow> unit result" where
  "native_WithResponseBody ct b = setResponseBody (BodyRaw ct b)"

subsection \<open>Helpers of the package that the file calls\<close>

text \<open>
  \<^verbatim>\<open>keyValuesToMapStringArrayInterface\<close> and \<^verbatim>\<open>headersMatcherToNativeHeaders\<close> are
  missing from the sources; they hand a key with its values, and a map of headers, to the
  native layer in its own representation.
\<close>

definition keyValuesToMapStringArrayInterface :: "string \<Rightarrow> Matcher list \<Rightarrow> (string \<times> Matcher list) list" where
  "keyValuesToMapStringArrayInterface key values = [(key, values)]"

definition headersMatcherToNativeHeaders :: "(string \<times> Matcher list) list \<Rightarrow> (string \<times> Matcher list) list" where
  "headersMatcherToNativeHeaders hs = hs"

text \<open>
  Modelled from the spec: \<^verbatim>\<open>validateMatchers\<close> is missing from the sources. Section 4.1:
  FromProviderState and DateTimeGenerated require specification version V3 or later, and
  the check runs when the body is built, over the whole nested value (the depth-first
  traversal of section 4.2).
\<close>

fun requiresV3 :: "Value \<Rightarrow> bool" where
  "requiresV3 (FromProviderState _ _) = True"
| "requiresV3 (DateTimeGenerated _ _) = True"
| "requiresV3 (GoSlice vs) = list_ex requiresV3 vs"
| "requiresV3 (GoMap kvs) = list_ex (\<lambda>kv. requiresV3 (snd kv)) kvs"
| "requiresV3 (Equality v) = requiresV3 v"
| "requiresV3 (TypeLike v) = requiresV3 v"
| "requiresV3 (ArrayMinLike v _) = requiresV3 v"
| "requiresV3 (ArrayMaxLike v _) = requiresV3 v"
| "requiresV3 (ArrayMinMaxLike v _ _) = requiresV3 v"
| "requiresV3 (ArrayContaining vs) = list_ex requiresV3 vs"
| "requiresV3 _ = False"

definition validateMatchers :: "SpecificationVersion \<Rightarrow> Value \<Rightarrow> error option" where
  "validateMatchers v b =
     (if v \<noteq> V3 \<and> requiresV3 b then Some UnsupportedForSpecVersionError else None)"

text \<open>
  A typed record handed to \<^verbatim>\<open>BodyMatch\<close>: one descriptor for each field, with the
  JSON name and the Go type of the field and the example, format and generator of its
  \<^verbatim>\<open>pact\<close> struct tag (section 9 of the specification); the example is held as a value
  of the field's type. Channels, functions and complex numbers have no JSON form.
\<close>

datatype GoType =
    TBool | TInt | TFloat | TString
  | TSlice GoType | TPtr GoType | TMap GoType | TStruct "GoType list"
  | TChan GoType | TFunc | TComplex

datatype GeneratorKind = ProviderStateGenerator | DateTimeGenerator






subsection \<open>The handles\<close>

text \<open>
  Each Go struct is a type of its own with the fields \<^verbatim>\<open>interaction\<close> and
  \<^verbatim>\<open>provider\<close>; the provider is the address of the mock provider.
\<close>

datatype UnconfiguredV2Interaction = UnconfiguredV2Interaction Interaction nat

datatype V2InteractionWithRequest = V2InteractionWithRequest Interaction nat

datatype V2InteractionWithRequestBuilder = V2InteractionWithRequestBuilder Interaction nat

datatype V2InteractionWithCompleteRequest = V2InteractionWithCompleteRequest Interaction nat

datatype V2InteractionWithResponseBuilder = V2InteractionWithResponseBuilder Interaction nat

datatype V2InteractionWithResponse = V2InteractionWithResponse Interaction nat

text \<open>
  A builder is any Go function over the builder handle: it may write to the world and it
  may panic.
\<close>

type_synonym V2RequestBuilder = "V2InteractionWithRequestBuilder \<Rightarrow> World \<Rightarrow> unit result"

type_synonym V2ResponseBuilder = "V2InteractionWithResponseBuilder \<Rightarrow> World \<Rightarrow> unit result"

text \<open>
  The loop \<^verbatim>\<open>for _, builder := range builders { builder(&H{...}) }\<close>: every builder
  gets a handle with the same two fields, and a panic leaves the loop.
\<close>

fun runBuilders :: "('h \<Rightarrow> World \<Rightarrow> unit result) list \<Rightarrow> 'h \<Rightarrow> World \<Rightarrow> unit result" where
  "runBuilders [] h w = (Inr (), w)"
| "runBuilders (b # bs) h w = andThen (b h w) (\<lambda>_. runBuilders bs h)"

text \<open>A method that returns its receiver, or another handle, after a native call.\<close>

definition returning :: "'h \<Rightarrow> unit result \<Rightarrow> 'h result" where
  "returning h r = andThen r (\<lambda>_ w. (Inr h, w))"

subsection \<open>The methods of the file, in its order\<close>

definition AddInteraction :: "nat \<Rightarrow> World \<Rightarrow> UnconfiguredV2Interaction result" where
  "AddInteraction p w =
     andThen (NewInteraction [] p (Println ''[DEBUG] pact add V2 interaction'' w))
       (\<lambda>a w'. (Inr (UnconfiguredV2Interaction \<lparr>specificationVersion = V2, interaction = a\<rparr> p), w'))"

fun Given :: "string \<Rightarrow> UnconfiguredV2Interaction \<Rightarrow> World \<Rightarrow> UnconfiguredV2Interaction result" where
  "Given state (UnconfiguredV2Interaction i p) w =
     returning (UnconfiguredV2Interaction i p) (native_Given state (interaction i) w)"

fun UponReceiving :: "string \<Rightarrow> UnconfiguredV2Interaction \<Rightarrow> World \<Rightarrow> UnconfiguredV2Interaction result" where
  "UponReceiving d (UnconfiguredV2Interaction i p) w =
     returning (UnconfiguredV2Interaction i p) (native_UponReceiving d (interaction i) w)"

text \<open>
  \<^verbatim>\<open>Interaction.WithCompleteRequest\<close> and \<^verbatim>\<open>Interaction.WithCompleteResponse\<close> are
  missing from the sources, with the types \<^verbatim>\<open>Request\<close> and \<^verbatim>\<open>Response\<close>; here
  they take a whole RequestSpec or ResponseSpec of section 3 and store it.
\<close>

definition Interaction_WithCompleteRequest :: "RequestSpec \<Rightarrow> Interaction \<Rightarrow> World \<Rightarrow> unit result" where
  "Interaction_WithCompleteRequest r i = modify (interaction i) (\<lambda>n. n\<lparr>request := r\<rparr>)"

definition Interaction_WithCompleteResponse :: "ResponseSpec \<Rightarrow> Interaction \<Rightarrow> World \<Rightarrow> unit result" where
  "Interaction_WithCompleteResponse r i = modify (interaction i) (\<lambda>n. n\<lparr>response := r\<rparr>)"

fun WithCompleteRequest ::
  "RequestSpec \<Rightarrow> UnconfiguredV2Interaction \<Rightarrow> World \<Rightarrow> V2InteractionWithCompleteRequest result" where
  "WithCompleteRequest r (UnconfiguredV2Interaction i p) w =
     returning (V2InteractionWithCompleteRequest i p) (Interaction_WithCompleteRequest r i w)"

fun WithCompleteResponse ::
  "ResponseSpec \<Rightarrow> V2InteractionWithCompleteRequest \<Rightarrow> World \<Rightarrow> V2InteractionWithResponse result" where
  "WithCompleteResponse r (V2InteractionWithCompleteRequest i p) w =
     returning (V2InteractionWithResponse i p) (Interaction_WithCompleteResponse r i w)"

fun WithRequestPathMatcher ::
  "Method \<Rightarrow> Matcher \<Rightarrow> V2RequestBuilder list \<Rightarrow> UnconfiguredV2Interaction \<Rightarrow> World
     \<Rightarrow> V2InteractionWithRequest result" where
  "WithRequestPathMatcher m pth builders (UnconfiguredV2Interaction i p) w =
     returning (V2InteractionWithRequest i p)
       (andThen (native_WithRequest m pth (interaction i) w)
          (\<lambda>_. runBuilders builders (V2InteractionWithRequestBuilder i p)))"

definition WithRequest ::
  "Method \<Rightarrow> string \<Rightarrow> V2RequestBuilder list \<Rightarrow> UnconfiguredV2Interaction \<Rightarrow> World
     \<Rightarrow> V2InteractionWithRequest result" where
  "WithRequest m pth builders i w = WithRequestPathMatcher m (String pth) builders i w"

fun RequestBuilder_Query ::
  "string \<Rightarrow> Matcher list \<Rightarrow> V2InteractionWithRequestBuilder \<Rightarrow> World
     \<Rightarrow> V2InteractionWithRequestBuilder result" where
  "RequestBuilder_Query key values (V2InteractionWithRequestBuilder i p) w =
     returning (V2InteractionWithRequestBuilder i p)
       (native_WithQuery (keyValuesToMapStringArrayInterface key values) (interaction i) w)"

fun RequestBuilder_Header ::
  "string \<Rightarrow> Matcher list \<Rightarrow> V2InteractionWithRequestBuilder \<Rightarrow> World
     \<Rightarrow> V2InteractionWithRequestBuilder result" where
  "RequestBuilder_Header key values (V2InteractionWithRequestBuilder i p) w =
     returning (V2InteractionWithRequestBuilder i p)
       (native_WithRequestHeaders (keyValuesToMapStringArrayInterface key values) (interaction i) w)"

fun RequestBuilder_Headers ::
  "(string \<times> Matcher list) list \<Rightarrow> V2InteractionWithRequestBuilder \<Rightarrow> World
     \<Rightarrow> V2InteractionWithRequestBuilder result" where
  "RequestBuilder_Headers hs (V2InteractionWithRequestBuilder i p) w =
     returning (V2InteractionWithRequestBuilder i p)
       (native_WithRequestHeaders (headersMatcherToNativeHeaders hs) (interaction i) w)"

definition requestWarning :: string where
  "requestWarning =
     ''[WARN] request body appears to be a JSON formatted object, '' @
     ''no matching will occur. Support for structured strings has been'' @
     ''deprecated as of 0.13.0. Please use the JSON() method instead''"

definition responseWarning :: string where
  "responseWarning =
     ''[WARN] response body appears to be a JSON formatted object, '' @
     ''no matching will occur. Support for structured strings has been'' @
     ''deprecated as of 0.13.0. Please use the JSON() method instead''"

text \<open>
  \<^verbatim>\<open>utils.IsJSONFormattedObject\<close> is missing from the sources; the methods that call it
  take it as the parameter \<open>isObject\<close>. \<open>warnIfObject\<close> is the block
  \<^verbatim>\<open>if s, ok := body.(string); ok { if utils.IsJSONFormattedObject(s) { log.Println(...) } }\<close>.
\<close>

fun warnIfObject :: "(string \<Rightarrow> bool) \<Rightarrow> string \<Rightarrow> Value \<Rightarrow> World \<Rightarrow> World" where
  "warnIfObject isObject msg (GoString s) w = (if isObject s then Println msg w else w)"
| "warnIfObject isObject msg _ w = w"

fun RequestBuilder_JSONBody ::
  "(string \<Rightarrow> bool) \<Rightarrow> Value \<Rightarrow> V2InteractionWithRequestBuilder \<Rightarrow> World
     \<Rightarrow> V2InteractionWithRequestBuilder result" where
  "RequestBuilder_JSONBody isObject b (V2InteractionWithRequestBuilder i p) w =
     (case validateMatchers (specificationVersion i) b of
        Some err \<Rightarrow> (Inl err, w)
      | None \<Rightarrow>
          returning (V2InteractionWithRequestBuilder i p)
            (native_WithJSONRequestBody b (interaction i) (warnIfObject isObject requestWarning b w)))"

fun RequestBuilder_BinaryBody ::
  "bytes \<Rightarrow> V2InteractionWithRequestBuilder \<Rightarrow> World \<Rightarrow> V2InteractionWithRequestBuilder result" where
  "RequestBuilder_BinaryBody b (V2InteractionWithRequestBuilder i p) w =
     returning (V2InteractionWithRequestBuilder i p)
       (native_WithBinaryRequestBody b (interaction i) w)"

fun RequestBuilder_MultipartBody ::
  "string \<Rightarrow> string \<Rightarrow> string \<Rightarrow> V2InteractionWithRequestBuilder \<Rightarrow> World
     \<Rightarrow> V2InteractionWithRequestBuilder result" where
  "RequestBuilder_MultipartBody contentType filename mimePartName (V2InteractionWithRequestBuilder i p) w =
     returning (V2InteractionWithRequestBuilder i p)
       (native_WithRequestMultipartFile contentType filename mimePartName (interaction i) w)"

text \<open>\<^verbatim>\<open>string(body)\<close> reads the bytes as the characters of a Go string.\<close>

definition bytesToString :: "bytes \<Rightarrow> string" where
  "bytesToString b = map (\<lambda>x. char_of (unat x)) b"

fun RequestBuilder_Body ::
  "(string \<Rightarrow> bool) \<Rightarrow> string \<Rightarrow> bytes \<Rightarrow> V2InteractionWithRequestBuilder \<Rightarrow> World
     \<Rightarrow> V2InteractionWithRequestBuilder result" where
  "RequestBuilder_Body isObject contentType b (V2InteractionWithRequestBuilder i p) w =
     returning (V2InteractionWithRequestBuilder i p)
       (native_WithRequestBody contentType b (interaction i)
          (if isObject (bytesToString b) then Println requestWarning w else w))"


fun WillRespondWith ::
  "int \<Rightarrow> V2ResponseBuilder list \<Rightarrow> V2InteractionWithRequest \<Rightarrow> World
     \<Rightarrow> V2InteractionWithResponse result" where
  "WillRespondWith st builders (V2InteractionWithRequest i p) w =
     returning (V2InteractionWithResponse i p)
       (andThen (native_WithStatus st (interaction i) w)
          (\<lambda>_. runBuilders builders (V2InteractionWithResponseBuilder i p)))"

fun ResponseBuilder_Header ::
  "string \<Rightarrow> Matcher list \<Rightarrow> V2InteractionWithResponseBuilder \<Rightarrow> World
     \<Rightarrow> V2InteractionWithResponseBuilder result" where
  "ResponseBuilder_Header key values (V2InteractionWithResponseBuilder i p) w =
     returning (V2InteractionWithResponseBuilder i p)
       (native_WithResponseHeaders (keyValuesToMapStringArrayInterface key values) (interaction i) w)"

fun ResponseBuilder_Headers ::
  "(string \<times> Matcher list) list \<Rightarrow> V2InteractionWithResponseBuilder \<Rightarrow> World
     \<Rightarrow> V2InteractionWithResponseBuilder result" where
  "ResponseBuilder_Headers hs (V2InteractionWithResponseBuilder i p) w =
     returning (V2InteractionWithResponseBuilder i p)
       (native_WithResponseHeaders (headersMatcherToNativeHeaders hs) (interaction i) w)"

fun ResponseBuilder_JSONBody ::
  "(string \<Rightarrow> bool) \<Rightarrow> Value \<Rightarrow> V2InteractionWithResponseBuilder \<Rightarrow> World
     \<Rightarrow> V2InteractionWithResponseBuilder result" where
  "ResponseBuilder_JSONBody isObject b (V2InteractionWithResponseBuilder i p) w =
     (case validateMatchers (specificationVersion i) b of
        Some err \<Rightarrow> (Inl err, w)
      | None \<Rightarrow>
          returning (V2InteractionWithResponseBuilder i p)
            (native_WithJSONResponseBody b (interaction i) (warnIfObject isObject responseWarning b w)))"

fun ResponseBuilder_BinaryBody ::
  "bytes \<Rightarrow> V2InteractionWithResponseBuilder \<Rightarrow> World \<Rightarrow> V2InteractionWithResponseBuilder result" where
  "ResponseBuilder_BinaryBody b (V2InteractionWithResponseBuilder i p) w =
     returning (V2InteractionWithResponseBuilder i p)
       (native_WithBinaryResponseBody b (interaction i) w)"

fun ResponseBuilder_MultipartBody ::
  "string \<Rightarrow> string \<Rightarrow> string \<Rightarrow> V2InteractionWithResponseBuilder \<Rightarrow> World
     \<Rightarrow> V2InteractionWithResponseBuilder result" where
  "ResponseBuilder_MultipartBody contentType filename mimePartName (V2InteractionWithResponseBuilder i p) w =
     returning (V2InteractionWithResponseBuilder i p)
       (native_WithResponseMultipartFile contentType filename mimePartName (interaction i) w)"

fun ResponseBuilder_Body ::
  "string \<Rightarrow> bytes \<Rightarrow> V2InteractionWithResponseBuilder \<Rightarrow> World
     \<Rightarrow> V2InteractionWithResponseBuilder result" where
  "ResponseBuilder_Body contentType b (V2InteractionWithResponseBuilder i p) w =
     returning (V2InteractionWithResponseBuilder i p)
       (native_WithResponseBody contentType b (interaction i) w)"


subsection \<open>Running the test\<close>

datatype MockServerConfig = MockServerConfig nat bool

record VerificationResult =
  matched :: bool
  mismatches :: "(string \<times> string \<times> string) list"

text \<open>
  The collaborators of section 6 of the specification, outside the repository: the mock
  transport (\<open>start\<close>, \<open>verify\<close>, \<open>stop\<close>) and the persistence service.
\<close>

record Transport =
  start :: "NativeInteraction list \<Rightarrow> string \<Rightarrow> nat \<Rightarrow> bool \<Rightarrow> World \<Rightarrow> MockServerConfig result"
  verify :: "World \<Rightarrow> VerificationResult \<times> World"
  stop :: "World \<Rightarrow> World"
  writeContract :: "ContractAggregate \<Rightarrow> World \<Rightarrow> error option \<times> World"

definition loadAggregate :: "httpMockProvider \<Rightarrow> World \<Rightarrow> ContractAggregate" where
  "loadAggregate pr w =
     \<lparr>consumerName = Consumer (config pr), providerName = Provider (config pr),
      version = httpMockProvider.specificationVersion pr,
      contents = List.map_filter (\<lambda>a. if a < length (heap w) then Some (heap w ! a) else None)
                   (interactions (mockserver pr))\<rparr>"

definition aggregateErrors :: "error option \<Rightarrow> VerificationResult \<Rightarrow> error list" where
  "aggregateErrors ex vr =
     (case ex of None \<Rightarrow> [] | Some e \<Rightarrow> [e]) @
     (if matched vr then [] else [VerificationError (mismatches vr)])"

text \<open>
  Modelled from the spec: \<^verbatim>\<open>httpMockProvider.ExecuteTest\<close> is missing from the sources.
  Section 4.5: the aggregate must hold an interaction (EmptyContractError) and the names
  must not be empty; the transport is started (TransportStartError, not retried); the
  exercise function runs once and its error is kept; the transport verifies; on success the
  contract is written; the listener is stopped on every path that started it. Section 7:
  the exercise error and the mismatches come back as one error, a persistence failure is
  reported as such, full success is nil.
\<close>

definition httpMockProvider_ExecuteTest ::
  "Transport \<Rightarrow> 't \<Rightarrow> (MockServerConfig \<Rightarrow> World \<Rightarrow> error option \<times> World) \<Rightarrow> nat \<Rightarrow> World
     \<Rightarrow> error option \<times> World" where
  "httpMockProvider_ExecuteTest tr t integrationTest p w =
     (if \<not> p < length (providers w) then (Some NilPointerDereference, w)
      else
        let pr = providers w ! p; agg = loadAggregate pr w in
        if contents agg = [] then (Some EmptyContractError, w)
        else if consumerName agg = [] \<or> providerName agg = [] then (Some ConfigurationError, w)
        else
          (case start tr (contents agg) (Host (config pr)) (Port (config pr)) (TLS (config pr)) w of
             (Inl e, w1) \<Rightarrow> (Some TransportStartError, stop tr w1)
           | (Inr cfg, w1) \<Rightarrow>
               (case integrationTest cfg w1 of (ex, w2) \<Rightarrow>
                (case verify tr w2 of (vr, w3) \<Rightarrow>
                   if aggregateErrors ex vr = [] then
                     (case writeContract tr agg w3 of
                        (None, w4) \<Rightarrow> (None, stop tr w4)
                      | (Some e, w4) \<Rightarrow> (Some PersistenceError, stop tr w4))
                   else (Some (AggregatedError (aggregateErrors ex vr)), stop tr w3)))))"

text \<open>
  \<^verbatim>\<open>V2HTTPMockProvider\<close> embeds \<^verbatim>\<open>*httpMockProvider\<close>, so \<^verbatim>\<open>m.provider.ExecuteTest\<close>
  is the promoted method of the provider the handle points to.
\<close>

fun ExecuteTest ::
  "Transport \<Rightarrow> 't \<Rightarrow> (MockServerConfig \<Rightarrow> World \<Rightarrow> error option \<times> World)
     \<Rightarrow> V2InteractionWithResponse \<Rightarrow> World \<Rightarrow> error option \<times> World" where
  "ExecuteTest tr t integrationTest (V2InteractionWithResponse i p) w =
     httpMockProvider_ExecuteTest tr t integrationTest p w"

subsection \<open>Call chains\<close>

text \<open>
  A fluent chain \<^verbatim>\<open>p.AddInteraction().A(...).B(...)\<close> calls each method on the handle the
  previous one returned. Go accepts a call only when the method belongs to the type of the
  receiver; \<open>invoke\<close> has one equation for each method of the file, on the receiver type
  the file declares it for, and every other pair of call and handle is rejected with
  InvalidInteractionSequenceError, the world untouched.
\<close>

datatype handle =
    HUnconfigured UnconfiguredV2Interaction
  | HWithCompleteRequest V2InteractionWithCompleteRequest
  | HWithRequest V2InteractionWithRequest
  | HWithResponse V2InteractionWithResponse

datatype call =
    CallGiven string
  | CallUponReceiving string
  | CallWithCompleteRequest RequestSpec
  | CallWithCompleteResponse ResponseSpec
  | CallWithRequest Method string "V2RequestBuilder list"
  | CallWithRequestPathMatcher Method Matcher "V2RequestBuilder list"
  | CallWillRespondWith int "V2ResponseBuilder list"

definition asHandle :: "('a \<Rightarrow> handle) \<Rightarrow> 'a result \<Rightarrow> handle result" where
  "asHandle c r = andThen r (\<lambda>x w. (Inr (c x), w))"

fun invoke :: "call \<Rightarrow> handle \<Rightarrow> World \<Rightarrow> handle result" where
  "invoke (CallGiven s) (HUnconfigured u) w = asHandle HUnconfigured (Given s u w)"
| "invoke (CallUponReceiving d) (HUnconfigured u) w = asHandle HUnconfigured (UponReceiving d u w)"
| "invoke (CallWithCompleteRequest r) (HUnconfigured u) w =
     asHandle HWithCompleteRequest (WithCompleteRequest r u w)"
| "invoke (CallWithCompleteResponse r) (HWithCompleteRequest c) w =
     asHandle HWithResponse (WithCompleteResponse r c w)"
| "invoke (CallWithRequest m pth bs) (HUnconfigured u) w = asHandle HWithRequest (WithRequest m pth bs u w)"
| "invoke (CallWithRequestPathMatcher m pth bs) (HUnconfigured u) w =
     asHandle HWithRequest (WithRequestPathMatcher m pth bs u w)"
| "invoke (CallWillRespondWith st bs) (HWithRequest r) w = asHandle HWithResponse (WillRespondWith st bs r w)"
| "invoke _ _ w = (Inl InvalidInteractionSequenceError, w)"

fun chain :: "call list \<Rightarrow> handle \<Rightarrow> World \<Rightarrow> handle result" where
  "chain [] h w = (Inr h, w)"
| "chain (c # cs) h w = andThen (invoke c h w) (chain cs)"

text \<open>The native interaction and the provider a handle points to.\<close>

fun interactionOf :: "handle \<Rightarrow> nat" where
  "interactionOf (HUnconfigured (UnconfiguredV2Interaction i p)) = interaction i"
| "interactionOf (HWithCompleteRequest (V2InteractionWithCompleteRequest i p)) = interaction i"
| "interactionOf (HWithRequest (V2InteractionWithRequest i p)) = interaction i"
| "interactionOf (HWithResponse (V2InteractionWithResponse i p)) = interaction i"

fun providerOf :: "handle \<Rightarrow> nat" where
  "providerOf (HUnconfigured (UnconfiguredV2Interaction i p)) = p"
| "providerOf (HWithCompleteRequest (V2InteractionWithCompleteRequest i p)) = p"
| "providerOf (HWithRequest (V2InteractionWithRequest i p)) = p"
| "providerOf (HWithResponse (V2InteractionWithResponse i p)) = p"

fun isWithRequestCall :: "call \<Rightarrow> bool" where
  "isWithRequestCall (CallWithRequest _ _ _) = True"
| "isWithRequestCall (CallWithRequestPathMatcher _ _ _) = True"
| "isWithRequestCall _ = False"

fun isWillRespondWithCall :: "call \<Rightarrow> bool" where
  "isWillRespondWithCall (CallWillRespondWith _ _) = True"
| "isWillRespondWithCall _ = False"

subsection \<open>Notions used to state the properties\<close>

text \<open>
  The handle types in the order a chain passes through them: the Unconfigured handle first,
  then a handle with a request, then the handle with the response.
\<close>

fun stage :: "handle \<Rightarrow> nat" where
  "stage (HUnconfigured _) = 0"
| "stage (HWithCompleteRequest _) = 1"
| "stage (HWithRequest _) = 1"
| "stage (HWithResponse _) = 2"

fun isGivenOrUponReceiving :: "call \<Rightarrow> bool" where
  "isGivenOrUponReceiving (CallGiven _) = True"
| "isGivenOrUponReceiving (CallUponReceiving _) = True"
| "isGivenOrUponReceiving _ = False"

text \<open>
  A test run in which nothing fails: the provider exists, its aggregate holds an interaction,
  both names are set, the transport starts, the exercise function returns nil, the transport
  reports a match and the contract is written.
\<close>

definition fullSuccess ::
  "Transport \<Rightarrow> (MockServerConfig \<Rightarrow> World \<Rightarrow> error option \<times> World) \<Rightarrow> nat \<Rightarrow> World \<Rightarrow> bool" where
  "fullSuccess tr f p w =
     (p < length (providers w) \<and>
      (let pr = providers w ! p; agg = loadAggregate pr w in
       contents agg \<noteq> [] \<and> consumerName agg \<noteq> [] \<and> providerName agg \<noteq> [] \<and>
       (case start tr (contents agg) (Host (config pr)) (Port (config pr)) (TLS (config pr)) w of
          (Inl e, w1) \<Rightarrow> False
        | (Inr cfg, w1) \<Rightarrow>
            (case f cfg w1 of (ex, w2) \<Rightarrow>
             (case verify tr w2 of (vr, w3) \<Rightarrow>
                ex = None \<and> matched vr \<and> fst (writeContract tr agg w3) = None)))))"

text \<open>
  A builder written as \<^verbatim>\<open>func(b *V2InteractionWithRequestBuilder) { b.JSONBody(body) }\<close>
  drops the handle that the method returns.
\<close>

definition discard :: "'a result \<Rightarrow> unit result" where
  "discard r = andThen r (\<lambda>_ w. (Inr (), w))"

definition requestJSON :: "(string \<Rightarrow> bool) \<Rightarrow> Value \<Rightarrow> V2RequestBuilder" where
  "requestJSON isObject b = (\<lambda>h w. discard (RequestBuilder_JSONBody isObject b h w))"

definition responseJSON :: "(string \<Rightarrow> bool) \<Rightarrow> Value \<Rightarrow> V2ResponseBuilder" where
  "responseJSON isObject b = (\<lambda>h w. discard (ResponseBuilder_JSONBody isObject b h w))"

text \<open>
  Two results agree on everything but the log: the same handle or panic, the same native
  interactions, the same providers.
\<close>

definition sameOutcome :: "'a result \<Rightarrow> 'a result \<Rightarrow> bool" where
  "sameOutcome r1 r2 =
     (fst r1 = fst r2 \<and> heap (snd r1) = heap (snd r2) \<and> providers (snd r1) = providers (snd r2))"


subsection \<open>Example inputs\<close>

text \<open>
  A world with one mock provider and no interaction, as \<^verbatim>\<open>NewV2Pact\<close> leaves it, and
  the worlds the calls of the example test reach from it. The first interaction lives at
  address 0.
\<close>

definition exampleWorld :: World where
  "exampleWorld =
     \<lparr>heap = [],
      providers = [\<lparr>config = \<lparr>Consumer = ''V2Consumer'', Provider = ''V2Provider'',
                              Host = ''127.0.0.1'', Port = 8080, TLS = True\<rparr>,
                    specificationVersion = V2, mockserver = \<lparr>interactions = []\<rparr>\<rparr>],
      log = [], observed = [], contracts = [], listening = []\<rparr>"

definition exampleInteraction :: Interaction where
  "exampleInteraction = \<lparr>specificationVersion = V2, interaction = 0\<rparr>"

definition exampleV3Interaction :: Interaction where
  "exampleV3Interaction = \<lparr>specificationVersion = V3, interaction = 0\<rparr>"

definition startedWorld :: World where
  "startedWorld =
     \<lparr>heap = [emptyInteraction []],
      providers = [\<lparr>config = \<lparr>Consumer = ''V2Consumer'', Provider = ''V2Provider'',
                              Host = ''127.0.0.1'', Port = 8080, TLS = True\<rparr>,
                    specificationVersion = V2, mockserver = \<lparr>interactions = [0]\<rparr>\<rparr>],
      log = [''[DEBUG] pact add V2 interaction''], observed = [], contracts = [], listening = []\<rparr>"

definition exampleHandle :: handle where
  "exampleHandle = HUnconfigured (UnconfiguredV2Interaction exampleInteraction 0)"

definition describedWorld :: World where
  "describedWorld =
     startedWorld\<lparr>heap := [(emptyInteraction ''A request to do a foo'')
                              \<lparr>states := [(''User foo exists'', [])]\<rparr>]\<rparr>"

definition requestedWorld :: World where
  "requestedWorld =
     startedWorld\<lparr>heap := [(emptyInteraction [])
        \<lparr>request := \<lparr>headers = [], body = NoBody, method = ''POST'',
                      path = Some (String ''/foobar''), query = []\<rparr>\<rparr>]\<rparr>"

definition respondedWorld :: World where
  "respondedWorld =
     startedWorld\<lparr>heap := [(emptyInteraction [])
        \<lparr>request := \<lparr>headers = [], body = NoBody, method = ''POST'',
                      path = Some (String ''/foobar''), query = []\<rparr>,
         response := \<lparr>headers = [], body = NoBody, status = Some 200\<rparr>\<rparr>]\<rparr>"

definition exampleResponded :: V2InteractionWithResponse where
  "exampleResponded = V2InteractionWithResponse exampleInteraction 0"

definition exampleV3Body :: Value where
  "exampleV3Body =
     GoMap [(''id'', TypeLike (GoInt 27)), (''name'', FromProviderState ''${name}'' ''billy'')]"




text \<open>
  Two answers that \<^verbatim>\<open>IsJSONFormattedObject\<close> may give for a string: yes and no.
\<close>

definition alwaysObject :: "string \<Rightarrow> bool" where
  "alwaysObject s = True"

definition neverObject :: "string \<Rightarrow> bool" where
  "neverObject s = False"

text \<open>
  A transport that accepts every start, reports a match when it has seen exactly the request
  \<^verbatim>\<open>POST /foobar\<close>, and a persistence service that never fails; an exercise function
  that sends that request.
\<close>

definition exampleTransport :: Transport where
  "exampleTransport =
     \<lparr>start = (\<lambda>ias host port tls w. (Inr (MockServerConfig port tls), w\<lparr>listening := port # listening w\<rparr>)),
      verify = (\<lambda>w. (\<lparr>matched = (observed w = [(''POST'', ''/foobar'')]), mismatches = []\<rparr>, w)),
      stop = (\<lambda>w. w\<lparr>listening := []\<rparr>),
      writeContract = (\<lambda>agg w. (None, w\<lparr>contracts := contracts w @ [agg]\<rparr>))\<rparr>"

definition exampleExercise :: "MockServerConfig \<Rightarrow> World \<Rightarrow> error option \<times> World" where
  "exampleExercise cfg w = (None, w\<lparr>observed := observed w @ [(''POST'', ''/foobar'')]\<rparr>)"

section \<open>Properties\<close>

subsection \<open>Basic facts\<close>

lemma andThen_Inr [simp]: "andThen (Inr x, w) f = f x w"
  by (simp add: andThen_def)

lemma andThen_Inl [simp]: "andThen (Inl e, w) f = (Inl e, w)"
  by (simp add: andThen_def)

lemma returning_Inr [simp]: "returning h (Inr x, w) = (Inr h, w)"
  by (simp add: returning_def)

lemma returning_Inl [simp]: "returning h (Inl e, w) = (Inl e, w)"
  by (simp add: returning_def)

lemma asHandle_Inr [simp]: "asHandle c (Inr x, w) = (Inr (c x), w)"
  by (simp add: asHandle_def)

lemma asHandle_Inl [simp]: "asHandle c (Inl e, w) = (Inl e, w)"
  by (simp add: asHandle_def)

lemma discard_Inl [simp]: "discard (Inl e, w) = (Inl e, w)"
  by (simp add: discard_def)

lemma discard_Inr [simp]: "discard (Inr x, w) = (Inr (), w)"
  by (simp add: discard_def)

lemma andThen_eq_Inr:
  "andThen r f = (Inr y, w') \<longleftrightarrow> (\<exists>x w1. r = (Inr x, w1) \<and> f x w1 = (Inr y, w'))"
  by (cases r; cases "fst r") (auto simp: andThen_def)

lemma asHandle_eq_Inr:
  "asHandle c r = (Inr h, w') \<longleftrightarrow> (\<exists>x. r = (Inr x, w') \<and> h = c x)"
  by (cases r; cases "fst r") (auto simp: asHandle_def andThen_def)

lemma returning_eq_Inr:
  "returning h r = (Inr h', w') \<longleftrightarrow> (\<exists>x. r = (Inr x, w')) \<and> h' = h"
  by (cases r; cases "fst r") (auto simp: returning_def andThen_def)

lemma andThen_assoc:
  "andThen (andThen r f) g = andThen r (\<lambda>x w. andThen (f x w) g)"
  by (cases r; cases "fst r") (auto simp: andThen_def)

lemma andThen_unit: "andThen r (\<lambda>_ w. (Inr (), w)) = (r :: unit result)"
  by (cases r; cases "fst r") (auto simp: andThen_def)

lemma returning_andThen:
  "returning h (andThen r f) = andThen r (\<lambda>x w. returning h (f x w))"
  by (cases r; cases "fst r") (auto simp: andThen_def returning_def)

lemma andThen_returning:
  "andThen (returning h r) f = andThen r (\<lambda>_. f h)"
  by (cases r; cases "fst r") (auto simp: andThen_def returning_def)

lemma modify_valid:
  "a < length (heap w) \<Longrightarrow> modify a f w = (Inr (), w\<lparr>heap := (heap w)[a := f (heap w ! a)]\<rparr>)"
  by (simp add: modify_def)

lemma modify_nil:
  "\<not> a < length (heap w) \<Longrightarrow> modify a f w = (Inl NilPointerDereference, w)"
  by (simp add: modify_def)

lemmas native_defs =
  native_Given_def native_UponReceiving_def native_WithRequest_def native_WithQuery_def
  native_WithRequestHeaders_def native_WithResponseHeaders_def setRequestBody_def
  setResponseBody_def native_WithJSONRequestBody_def native_WithBinaryRequestBody_def
  native_WithRequestMultipartFile_def native_WithRequestBody_def native_WithStatus_def
  native_WithJSONResponseBody_def native_WithBinaryResponseBody_def
  native_WithResponseMultipartFile_def native_WithResponseBody_def
  Interaction_WithCompleteRequest_def Interaction_WithCompleteResponse_def

lemmas example_defs = startedWorld_def exampleInteraction_def emptyInteraction_def
  alwaysObject_def neverObject_def

lemmas world_defs = example_defs exampleHandle_def describedWorld_def requestedWorld_def
  respondedWorld_def

lemma AddInteraction_example:
  "AddInteraction 0 exampleWorld = (Inr (UnconfiguredV2Interaction exampleInteraction 0), startedWorld)"
  by (simp add: AddInteraction_def NewInteraction_def Println_def exampleWorld_def
      startedWorld_def exampleInteraction_def Let_def)

lemma AddInteraction_returns:
  "AddInteraction p w = (Inr u, w') \<Longrightarrow>
   u = UnconfiguredV2Interaction \<lparr>specificationVersion = V2, interaction = length (heap w)\<rparr> p
   \<and> p < length (providers w) \<and> heap w' = heap w @ [emptyInteraction []]"
  by (auto simp: AddInteraction_def NewInteraction_def Println_def Let_def split: if_splits)

text \<open>
  Which call is accepted on which handle, and which handle it returns: the method sets of the
  four handle types.
\<close>

lemma invoke_accepted:
  assumes "invoke c h w = (Inr h', w')"
  shows "(\<exists>i p. h = HUnconfigured (UnconfiguredV2Interaction i p) \<and>
            ((\<exists>s. c = CallGiven s) \<or> (\<exists>d. c = CallUponReceiving d)) \<and>
            h' = HUnconfigured (UnconfiguredV2Interaction i p))
       \<or> (\<exists>i p r. h = HUnconfigured (UnconfiguredV2Interaction i p) \<and> c = CallWithCompleteRequest r \<and>
            h' = HWithCompleteRequest (V2InteractionWithCompleteRequest i p))
       \<or> (\<exists>i p. h = HUnconfigured (UnconfiguredV2Interaction i p) \<and> isWithRequestCall c \<and>
            h' = HWithRequest (V2InteractionWithRequest i p))
       \<or> (\<exists>i p r. h = HWithCompleteRequest (V2InteractionWithCompleteRequest i p) \<and>
            c = CallWithCompleteResponse r \<and> h' = HWithResponse (V2InteractionWithResponse i p))
       \<or> (\<exists>i p st bs. h = HWithRequest (V2InteractionWithRequest i p) \<and>
            c = CallWillRespondWith st bs \<and> h' = HWithResponse (V2InteractionWithResponse i p))"
proof (cases h)
  case (HUnconfigured u)
  obtain i p where u: "u = UnconfiguredV2Interaction i p" by (cases u)
  show ?thesis using assms unfolding HUnconfigured u
    by (cases c) (auto simp: asHandle_eq_Inr returning_eq_Inr WithRequest_def)
next
  case (HWithCompleteRequest x)
  obtain i p where x: "x = V2InteractionWithCompleteRequest i p" by (cases x)
  show ?thesis using assms unfolding HWithCompleteRequest x
    by (cases c) (auto simp: asHandle_eq_Inr returning_eq_Inr)
next
  case (HWithRequest x)
  obtain i p where x: "x = V2InteractionWithRequest i p" by (cases x)
  show ?thesis using assms unfolding HWithRequest x
    by (cases c) (auto simp: asHandle_eq_Inr returning_eq_Inr)
next
  case (HWithResponse x)
  show ?thesis using assms unfolding HWithResponse
    by (cases c) auto
qed

lemma invoke_returns_WithRequest:
  "invoke c h w = (Inr (HWithRequest r), w') \<Longrightarrow> isWithRequestCall c \<and> (\<exists>u. h = HUnconfigured u)"
  by (drule invoke_accepted) auto

lemma WillRespondWith_accepted:
  "invoke (CallWillRespondWith st bs) h w = (Inr h', w') \<Longrightarrow> \<exists>r. h = HWithRequest r"
  by (drule invoke_accepted) auto

lemma WillRespondWith_rejected:
  "\<forall>r. h \<noteq> HWithRequest r \<Longrightarrow>
   invoke (CallWillRespondWith st bs) h w = (Inl InvalidInteractionSequenceError, w)"
  by (cases h) auto

lemma chain_without_WithRequest:
  "\<not> list_ex isWithRequestCall cs \<Longrightarrow> \<forall>r. h \<noteq> HWithRequest r \<Longrightarrow>
   chain cs h w = (Inr h', w') \<Longrightarrow> \<forall>r. h' \<noteq> HWithRequest r"
proof (induction cs arbitrary: h w)
  case Nil
  then show ?case by simp
next
  case (Cons c cs)
  from Cons.prems(3) obtain h1 w1 where
    step: "invoke c h w = (Inr h1, w1)" and rest: "chain cs h1 w1 = (Inr h', w')"
    by (auto simp: andThen_eq_Inr)
  have "\<forall>r. h1 \<noteq> HWithRequest r"
    using invoke_returns_WithRequest step Cons.prems(1) by fastforce
  moreover have "\<not> list_ex isWithRequestCall cs" using Cons.prems(1) by simp
  ultimately show ?case using Cons.IH rest by blast
qed

subsection \<open>WillRespondWith needs WithRequest\<close>

text \<open>
  Claim C1. Calling WillRespondWith before WithRequest fails with
  InvalidInteractionSequenceError and writes nothing: after any accepted chain of calls on an
  Unconfigured handle that holds neither WithRequest nor WithRequestPathMatcher, a call of
  WillRespondWith is rejected and the world stays as it is. A call of WillRespondWith is
  accepted only on a V2InteractionWithRequest handle, and the only calls that return such a
  handle are WithRequest and WithRequestPathMatcher on an Unconfigured handle.
\<close>

theorem WillRespondWith_before_WithRequest_rejected:
  "(\<not> list_ex isWithRequestCall cs \<and> chain cs (HUnconfigured u) w = (Inr h, w') \<longrightarrow>
      invoke (CallWillRespondWith st bs) h w' = (Inl InvalidInteractionSequenceError, w'))
   \<and> (invoke (CallWillRespondWith st bs) ha wa = (Inr hb, wb) \<longrightarrow> (\<exists>r. ha = HWithRequest r))
   \<and> (invoke c hc wc = (Inr (HWithRequest r), wd) \<longrightarrow>
        isWithRequestCall c \<and> (\<exists>u'. hc = HUnconfigured u'))"
proof (intro conjI impI)
  assume a: "\<not> list_ex isWithRequestCall cs \<and> chain cs (HUnconfigured u) w = (Inr h, w')"
  have "\<forall>r. h \<noteq> HWithRequest r"
    using chain_without_WithRequest [of cs "HUnconfigured u" w h w'] a by simp
  then show "invoke (CallWillRespondWith st bs) h w' = (Inl InvalidInteractionSequenceError, w')"
    by (rule WillRespondWith_rejected)
next
  assume "invoke (CallWillRespondWith st bs) ha wa = (Inr hb, wb)"
  then show "\<exists>r. ha = HWithRequest r" by (rule WillRespondWith_accepted)
next
  assume a: "invoke c hc wc = (Inr (HWithRequest r), wd)"
  show "isWithRequestCall c" using invoke_returns_WithRequest [OF a] by simp
  show "\<exists>u'. hc = HUnconfigured u'" using invoke_returns_WithRequest [OF a] by simp
qed

text \<open>
  On the example: after Given and UponReceiving the call of WillRespondWith is rejected and
  the world is the one before the call; after WithRequest it is accepted.
\<close>

theorem WillRespondWith_before_WithRequest_rejected_witness:
  "\<not> list_ex isWithRequestCall [CallGiven ''User foo exists'', CallUponReceiving ''A request to do a foo'']
   \<and> chain [CallGiven ''User foo exists'', CallUponReceiving ''A request to do a foo'']
        (HUnconfigured (UnconfiguredV2Interaction exampleInteraction 0)) startedWorld =
       (Inr exampleHandle, describedWorld)
   \<and> invoke (CallWillRespondWith 200 []) exampleHandle describedWorld =
       (Inl InvalidInteractionSequenceError, describedWorld)
   \<and> invoke (CallWithRequest ''POST'' ''/foobar'' []) exampleHandle startedWorld =
       (Inr (HWithRequest (V2InteractionWithRequest exampleInteraction 0)), requestedWorld)
   \<and> isWithRequestCall (CallWithRequest ''POST'' ''/foobar'' [])
   \<and> invoke (CallWillRespondWith 200 []) (HWithRequest (V2InteractionWithRequest exampleInteraction 0))
        requestedWorld =
       (Inr (HWithResponse (V2InteractionWithResponse exampleInteraction 0)), respondedWorld)"
proof -
  note T = WillRespondWith_before_WithRequest_rejected
  have a: "\<not> list_ex isWithRequestCall [CallGiven ''User foo exists'', CallUponReceiving ''A request to do a foo'']
     \<and> chain [CallGiven ''User foo exists'', CallUponReceiving ''A request to do a foo'']
        (HUnconfigured (UnconfiguredV2Interaction exampleInteraction 0)) startedWorld =
       (Inr exampleHandle, describedWorld)"
    by (simp add: native_defs modify_def world_defs)
  have b: "invoke (CallWithRequest ''POST'' ''/foobar'' []) exampleHandle startedWorld =
       (Inr (HWithRequest (V2InteractionWithRequest exampleInteraction 0)), requestedWorld)"
    by (simp add: WithRequest_def native_defs modify_def world_defs)
  have c: "invoke (CallWillRespondWith 200 []) (HWithRequest (V2InteractionWithRequest exampleInteraction 0))
        requestedWorld =
       (Inr (HWithResponse (V2InteractionWithResponse exampleInteraction 0)), respondedWorld)"
    by (simp add: native_defs modify_def world_defs)
  have "invoke (CallWillRespondWith 200 []) exampleHandle describedWorld =
       (Inl InvalidInteractionSequenceError, describedWorld)"
    using T [THEN conjunct1, rule_format, OF a] .
  moreover have "isWithRequestCall (CallWithRequest ''POST'' ''/foobar'' [])"
    using T [THEN conjunct2, THEN conjunct2, rule_format, OF b] by simp
  moreover have "\<exists>r. HWithRequest (V2InteractionWithRequest exampleInteraction 0) = HWithRequest r"
    using T [THEN conjunct2, THEN conjunct1, rule_format, OF c] .
  ultimately show ?thesis using a b c by simp
qed

subsection \<open>JSONBody and the specification version\<close>

lemma validateMatchers_V2: "requiresV3 b \<Longrightarrow> validateMatchers V2 b = Some UnsupportedForSpecVersionError"
  by (simp add: validateMatchers_def)

lemma validateMatchers_V3: "validateMatchers V3 b = None"
  by (simp add: validateMatchers_def)

lemma validateMatchers_GoString: "validateMatchers v (GoString s) = None"
  by (simp add: validateMatchers_def)

text \<open>
  Claim C2. Under specification version V2, JSONBody on the request builder and on the
  response builder fails with UnsupportedForSpecVersionError, at the call and with nothing
  written, when the body holds a rule that needs V3 (FromProviderState, DateTimeGenerated,
  at any depth). Every interaction made by AddInteraction is a V2 interaction, so the panic
  leaves WithRequest and WillRespondWith when a builder makes that call. The rule itself is
  a plain value: the same body is accepted by JSONBody of a V3 interaction, so the check is
  made where the body is built and not where the rule is built.
\<close>

theorem JSONBody_rejects_V3_rules_under_V2:
  "(specificationVersion i = V2 \<and> requiresV3 b \<longrightarrow>
      RequestBuilder_JSONBody isObject b (V2InteractionWithRequestBuilder i p) w =
        (Inl UnsupportedForSpecVersionError, w)
      \<and> ResponseBuilder_JSONBody isObject b (V2InteractionWithResponseBuilder i p) w =
        (Inl UnsupportedForSpecVersionError, w))
   \<and> (AddInteraction p w0 = (Inr u, w1) \<and> requiresV3 b \<longrightarrow>
        fst (chain [CallWithRequest m pth [requestJSON isObject b]] (HUnconfigured u) w1) =
          Inl UnsupportedForSpecVersionError
        \<and> fst (chain [CallWithRequest m pth [], CallWillRespondWith st [responseJSON isObject b]]
                 (HUnconfigured u) w1) =
          Inl UnsupportedForSpecVersionError)
   \<and> (specificationVersion i = V3 \<and> interaction i < length (heap w) \<longrightarrow>
        fst (RequestBuilder_JSONBody isObject b (V2InteractionWithRequestBuilder i p) w) =
          Inr (V2InteractionWithRequestBuilder i p)
        \<and> fst (ResponseBuilder_JSONBody isObject b (V2InteractionWithResponseBuilder i p) w) =
          Inr (V2InteractionWithResponseBuilder i p))"
proof (intro conjI impI)
  assume a: "specificationVersion i = V2 \<and> requiresV3 b"
  show "RequestBuilder_JSONBody isObject b (V2InteractionWithRequestBuilder i p) w =
        (Inl UnsupportedForSpecVersionError, w)"
    using a by (simp add: validateMatchers_V2)
  show "ResponseBuilder_JSONBody isObject b (V2InteractionWithResponseBuilder i p) w =
        (Inl UnsupportedForSpecVersionError, w)"
    using a by (simp add: validateMatchers_V2)
next
  assume a: "AddInteraction p w0 = (Inr u, w1) \<and> requiresV3 b"
  let ?i = "\<lparr>specificationVersion = V2, interaction = length (heap w0)\<rparr>"
  have u: "u = UnconfiguredV2Interaction ?i p" and hp: "heap w1 = heap w0 @ [emptyInteraction []]"
    using AddInteraction_returns a by blast+
  have valid: "length (heap w0) < length (heap w1)" using hp by simp
  show "fst (chain [CallWithRequest m pth [requestJSON isObject b]] (HUnconfigured u) w1) =
          Inl UnsupportedForSpecVersionError"
    using a valid
    by (simp add: u WithRequest_def native_WithRequest_def modify_def requestJSON_def
        validateMatchers_V2)
  show "fst (chain [CallWithRequest m pth [], CallWillRespondWith st [responseJSON isObject b]]
                 (HUnconfigured u) w1) =
          Inl UnsupportedForSpecVersionError"
    using a valid
    by (simp add: u WithRequest_def native_WithRequest_def native_WithStatus_def modify_def
        responseJSON_def validateMatchers_V2)
next
  assume a: "specificationVersion i = V3 \<and> interaction i < length (heap w)"
  have len: "length (heap (warnIfObject isObject msg b w)) = length (heap w)" for msg
    by (cases b) (simp_all add: Println_def)
  show "fst (RequestBuilder_JSONBody isObject b (V2InteractionWithRequestBuilder i p) w) =
          Inr (V2InteractionWithRequestBuilder i p)"
    using a by (simp add: validateMatchers_V3 native_WithJSONRequestBody_def setRequestBody_def
        modify_def len)
  show "fst (ResponseBuilder_JSONBody isObject b (V2InteractionWithResponseBuilder i p) w) =
          Inr (V2InteractionWithResponseBuilder i p)"
    using a by (simp add: validateMatchers_V3 native_WithJSONResponseBody_def setResponseBody_def
        modify_def len)
qed

text \<open>
  On the example: a body with \<open>FromProviderState ''${name}'' ''billy''\<close> under V2 and
  under V3.
\<close>

theorem JSONBody_rejects_V3_rules_under_V2_witness:
  "specificationVersion exampleInteraction = V2 \<and> requiresV3 exampleV3Body
   \<and> RequestBuilder_JSONBody neverObject exampleV3Body
        (V2InteractionWithRequestBuilder exampleInteraction 0) startedWorld =
       (Inl UnsupportedForSpecVersionError, startedWorld)
   \<and> ResponseBuilder_JSONBody neverObject exampleV3Body
        (V2InteractionWithResponseBuilder exampleInteraction 0) startedWorld =
       (Inl UnsupportedForSpecVersionError, startedWorld)
   \<and> AddInteraction 0 exampleWorld = (Inr (UnconfiguredV2Interaction exampleInteraction 0), startedWorld)
   \<and> fst (chain [CallWithRequest ''POST'' ''/foobar'' [requestJSON neverObject exampleV3Body]]
             (HUnconfigured (UnconfiguredV2Interaction exampleInteraction 0)) startedWorld) =
       Inl UnsupportedForSpecVersionError
   \<and> fst (chain [CallWithRequest ''POST'' ''/foobar'' [],
                  CallWillRespondWith 200 [responseJSON neverObject exampleV3Body]]
             (HUnconfigured (UnconfiguredV2Interaction exampleInteraction 0)) startedWorld) =
       Inl UnsupportedForSpecVersionError
   \<and> specificationVersion exampleV3Interaction = V3
   \<and> interaction exampleV3Interaction < length (heap startedWorld)
   \<and> fst (RequestBuilder_JSONBody neverObject exampleV3Body
             (V2InteractionWithRequestBuilder exampleV3Interaction 0) startedWorld) =
       Inr (V2InteractionWithRequestBuilder exampleV3Interaction 0)
   \<and> fst (ResponseBuilder_JSONBody neverObject exampleV3Body
             (V2InteractionWithResponseBuilder exampleV3Interaction 0) startedWorld) =
       Inr (V2InteractionWithResponseBuilder exampleV3Interaction 0)"
proof -
  note T = JSONBody_rejects_V3_rules_under_V2
  have a: "specificationVersion exampleInteraction = V2 \<and> requiresV3 exampleV3Body"
    by (simp add: exampleInteraction_def exampleV3Body_def)
  have b: "AddInteraction 0 exampleWorld = (Inr (UnconfiguredV2Interaction exampleInteraction 0), startedWorld)
           \<and> requiresV3 exampleV3Body"
    using a by (simp add: AddInteraction_example)
  have c: "specificationVersion exampleV3Interaction = V3
           \<and> interaction exampleV3Interaction < length (heap startedWorld)"
    by (simp add: exampleV3Interaction_def startedWorld_def)
  show ?thesis
    using a b c
      T [THEN conjunct1, rule_format, OF a, of neverObject 0 startedWorld]
      T [THEN conjunct2, THEN conjunct1, rule_format, OF b,
          of "''POST''" "''/foobar''" neverObject 200]
      T [THEN conjunct2, THEN conjunct2, rule_format, OF c, of neverObject exampleV3Body 0]
    by simp
qed

subsection \<open>BodyMatch\<close>




subsection \<open>The description of a complete interaction\<close>

text \<open>
  Claim C4. The chain \<^verbatim>\<open>AddInteraction().WithRequest("GET", "/").WillRespondWith(200)\<close>
  is accepted and ends in the handle of a complete interaction whose description is still
  the empty string that AddInteraction gave it: nothing makes the call of UponReceiving
  necessary.
\<close>

theorem complete_interaction_with_empty_description:
  "fst (andThen (AddInteraction 0 exampleWorld)
          (\<lambda>u. chain [CallWithRequest ''GET'' ''/'' [], CallWillRespondWith 200 []] (HUnconfigured u))) =
     Inr (HWithResponse (V2InteractionWithResponse exampleInteraction 0))
   \<and> description (heap (snd (andThen (AddInteraction 0 exampleWorld)
          (\<lambda>u. chain [CallWithRequest ''GET'' ''/'' [], CallWillRespondWith 200 []] (HUnconfigured u)))) ! 0) = []"
  by (simp add: AddInteraction_example WithRequest_def native_defs modify_def example_defs)

subsection \<open>The order of the handle types\<close>

lemma invoke_stage:
  "invoke c h w = (Inr h', w') \<Longrightarrow>
   (if isGivenOrUponReceiving c then stage h = 0 \<and> h' = h else stage h < stage h')"
  by (drule invoke_accepted, cases c) auto

lemma chain_stage: "chain cs h w = (Inr h', w') \<Longrightarrow> stage h \<le> stage h'"
proof (induction cs arbitrary: h w)
  case Nil
  then show ?case by simp
next
  case (Cons c cs)
  from Cons.prems obtain h1 w1 where
    step: "invoke c h w = (Inr h1, w1)" and rest: "chain cs h1 w1 = (Inr h', w')"
    by (auto simp: andThen_eq_Inr)
  have "stage h \<le> stage h1" using invoke_stage [OF step] by (auto split: if_splits)
  moreover have "stage h1 \<le> stage h'" using Cons.IH rest by blast
  ultimately show ?case by simp
qed

text \<open>
  Claim C5, as amended. The handle types are passed in one direction: an accepted chain never
  returns a handle of an earlier type than the one it started from, and every accepted call
  other than Given and UponReceiving moves to a later type. Given and UponReceiving are
  accepted on the Unconfigured handle only and both return that same handle, so each of them
  may follow the other.
\<close>

theorem handle_transitions_one_directional:
  "(chain cs h w = (Inr h', w') \<longrightarrow> stage h \<le> stage h')
   \<and> (invoke c ha wa = (Inr hb, wb) \<longrightarrow>
        (if isGivenOrUponReceiving c then stage ha = 0 \<and> hb = ha else stage ha < stage hb))"
  using chain_stage invoke_stage by blast

text \<open>
  On the example: a chain from the Unconfigured handle to the handle with the response, and a
  call of UponReceiving that returns the handle it was called on.
\<close>

theorem handle_transitions_one_directional_witness:
  "chain [CallGiven ''User foo exists'', CallWithRequest ''POST'' ''/foobar'' [], CallWillRespondWith 200 []]
      exampleHandle startedWorld =
     (Inr (HWithResponse (V2InteractionWithResponse exampleInteraction 0)),
      snd (chain [CallGiven ''User foo exists'', CallWithRequest ''POST'' ''/foobar'' [],
                  CallWillRespondWith 200 []] exampleHandle startedWorld))
   \<and> stage exampleHandle \<le> stage (HWithResponse (V2InteractionWithResponse exampleInteraction 0))
   \<and> invoke (CallUponReceiving ''A request to do a foo'') exampleHandle startedWorld =
       (Inr exampleHandle, snd (invoke (CallUponReceiving ''A request to do a foo'') exampleHandle startedWorld))
   \<and> stage exampleHandle = 0"
proof -
  note T = handle_transitions_one_directional
  have a: "chain [CallGiven ''User foo exists'', CallWithRequest ''POST'' ''/foobar'' [], CallWillRespondWith 200 []]
      exampleHandle startedWorld =
     (Inr (HWithResponse (V2InteractionWithResponse exampleInteraction 0)),
      snd (chain [CallGiven ''User foo exists'', CallWithRequest ''POST'' ''/foobar'' [],
                  CallWillRespondWith 200 []] exampleHandle startedWorld))"
    by (simp add: WithRequest_def native_defs modify_def world_defs)
  have b: "invoke (CallUponReceiving ''A request to do a foo'') exampleHandle startedWorld =
       (Inr exampleHandle, snd (invoke (CallUponReceiving ''A request to do a foo'') exampleHandle startedWorld))"
    by (simp add: native_defs modify_def world_defs)
  show ?thesis
    using a b T [THEN conjunct1, rule_format, OF a] T [THEN conjunct2, rule_format, OF b]
    by simp
qed

text \<open>
  Given after UponReceiving is accepted: the call returns the Unconfigured handle and the
  provider state is appended to the interaction.
\<close>

theorem Given_after_UponReceiving_counterexample:
  "fst (chain [CallUponReceiving ''A request to do a foo'', CallGiven ''User foo exists'']
          (HUnconfigured (UnconfiguredV2Interaction exampleInteraction 0)) startedWorld) =
     Inr (HUnconfigured (UnconfiguredV2Interaction exampleInteraction 0))
   \<and> states (heap (snd (chain [CallUponReceiving ''A request to do a foo'', CallGiven ''User foo exists'']
          (HUnconfigured (UnconfiguredV2Interaction exampleInteraction 0)) startedWorld)) ! 0) =
     [(''User foo exists'', [])]"
  by (simp add: native_defs modify_def example_defs)

subsection \<open>Given\<close>

text \<open>
  Claim C6. A sequence of Given calls on an Unconfigured handle whose interaction exists is
  accepted, returns the same handle, and appends to the provider states of the interaction
  exactly the given states, in call order, each with an empty parameter mapping; nothing else
  in the world changes. With one call this is one appended state, with none the world is
  unchanged.
\<close>

theorem Given_appends_in_call_order:
  assumes "interaction i < length (heap w)"
  shows "chain (map CallGiven ss) (HUnconfigured (UnconfiguredV2Interaction i p)) w =
           (Inr (HUnconfigured (UnconfiguredV2Interaction i p)),
            w\<lparr>heap := (heap w)[interaction i :=
                 (heap w ! interaction i)\<lparr>states :=
                    states (heap w ! interaction i) @ map (\<lambda>s. (s, [])) ss\<rparr>]\<rparr>)"
  using assms
proof (induction ss arbitrary: w)
  case Nil
  then show ?case by simp
next
  case (Cons s ss)
  let ?a = "interaction i"
  let ?h = "HUnconfigured (UnconfiguredV2Interaction i p)"
  let ?w1 = "w\<lparr>heap := (heap w)[?a := (heap w ! ?a)\<lparr>states := states (heap w ! ?a) @ [(s, [])]\<rparr>]\<rparr>"
  have step: "invoke (CallGiven s) ?h w = (Inr ?h, ?w1)"
    using Cons.prems by (simp add: native_Given_def modify_valid)
  have valid: "?a < length (heap ?w1)" using Cons.prems by simp
  have "chain (map CallGiven (s # ss)) ?h w = chain (map CallGiven ss) ?h ?w1"
    by (simp only: list.map chain.simps step andThen_Inr)
  also have "\<dots> = (Inr ?h,
            w\<lparr>heap := (heap w)[?a :=
                 (heap w ! ?a)\<lparr>states := states (heap w ! ?a) @ map (\<lambda>s. (s, [])) (s # ss)\<rparr>]\<rparr>)"
    using Cons.prems by (simp add: Cons.IH [OF valid])
  finally show ?case .
qed

text \<open>
  On the example: two calls on the interaction that AddInteraction has just made, which has
  no provider state yet.
\<close>

theorem Given_appends_in_call_order_witness:
  "interaction exampleInteraction < length (heap startedWorld)
   \<and> fst (chain (map CallGiven [''User foo exists'', ''User bar exists''])
            (HUnconfigured (UnconfiguredV2Interaction exampleInteraction 0)) startedWorld) =
       Inr (HUnconfigured (UnconfiguredV2Interaction exampleInteraction 0))
   \<and> states (heap (snd (chain (map CallGiven [''User foo exists'', ''User bar exists''])
            (HUnconfigured (UnconfiguredV2Interaction exampleInteraction 0)) startedWorld)) ! 0) =
       [(''User foo exists'', []), (''User bar exists'', [])]"
proof -
  have a: "interaction exampleInteraction < length (heap startedWorld)"
    by (simp add: example_defs)
  show ?thesis
    using a Given_appends_in_call_order [OF a, of "[''User foo exists'', ''User bar exists'']" 0]
    by (simp add: example_defs)
qed

subsection \<open>ExecuteTest\<close>

lemma invoke_keeps_pointers:
  "invoke c h w = (Inr h', w') \<Longrightarrow> providerOf h' = providerOf h \<and> interactionOf h' = interactionOf h"
  by (drule invoke_accepted) auto

lemma chain_keeps_pointers:
  "chain cs h w = (Inr h', w') \<Longrightarrow> providerOf h' = providerOf h \<and> interactionOf h' = interactionOf h"
proof (induction cs arbitrary: h w)
  case Nil
  then show ?case by simp
next
  case (Cons c cs)
  from Cons.prems obtain h1 w1 where
    step: "invoke c h w = (Inr h1, w1)" and rest: "chain cs h1 w1 = (Inr h', w')"
    by (auto simp: andThen_eq_Inr)
  show ?case using invoke_keeps_pointers [OF step] Cons.IH [OF rest] by simp
qed

lemma nil_iff_fullSuccess:
  "(fst (httpMockProvider_ExecuteTest tr t f p w) = None) = fullSuccess tr f p w"
  unfolding fullSuccess_def httpMockProvider_ExecuteTest_def Let_def
  by (auto simp: aggregateErrors_def split: prod.split sum.split option.split)

text \<open>
  Claim C7. A handle of a complete interaction, reached by an accepted chain from the handle
  that AddInteraction returned for the provider \<open>p\<close>, runs the test of that provider:
  ExecuteTest on the handle and ExecuteTest on \<open>p\<close>, with the same exercise function in the
  same world, give the same error and the same world. The error is nil exactly when the whole
  run succeeds.
\<close>

theorem ExecuteTest_on_handle_is_provider_ExecuteTest:
  "(AddInteraction p w0 = (Inr u, w1) \<and> chain cs (HUnconfigured u) w1 = (Inr (HWithResponse m), w2) \<longrightarrow>
      ExecuteTest tr t f m w = httpMockProvider_ExecuteTest tr t f p w)
   \<and> (fst (ExecuteTest tr t f (V2InteractionWithResponse i p) w) = None) = fullSuccess tr f p w"
proof (intro conjI impI)
  assume a: "AddInteraction p w0 = (Inr u, w1) \<and> chain cs (HUnconfigured u) w1 = (Inr (HWithResponse m), w2)"
  have "providerOf (HUnconfigured u) = p" using AddInteraction_returns a by fastforce
  then have "providerOf (HWithResponse m) = p" using chain_keeps_pointers a by fastforce
  then show "ExecuteTest tr t f m w = httpMockProvider_ExecuteTest tr t f p w"
    by (cases m) simp
next
  show "(fst (ExecuteTest tr t f (V2InteractionWithResponse i p) w) = None) = fullSuccess tr f p w"
    by (simp add: nil_iff_fullSuccess)
qed

text \<open>
  On the example: the interaction \<^verbatim>\<open>POST /foobar\<close> answered with 200, run against the
  example transport; the run succeeds and returns nil.
\<close>

theorem ExecuteTest_on_handle_is_provider_ExecuteTest_witness:
  "AddInteraction 0 exampleWorld = (Inr (UnconfiguredV2Interaction exampleInteraction 0), startedWorld)
   \<and> chain [CallWithRequest ''POST'' ''/foobar'' [], CallWillRespondWith 200 []]
        (HUnconfigured (UnconfiguredV2Interaction exampleInteraction 0)) startedWorld =
       (Inr (HWithResponse exampleResponded), respondedWorld)
   \<and> ExecuteTest exampleTransport () exampleExercise exampleResponded respondedWorld =
       httpMockProvider_ExecuteTest exampleTransport () exampleExercise 0 respondedWorld
   \<and> fullSuccess exampleTransport exampleExercise 0 respondedWorld
   \<and> fst (ExecuteTest exampleTransport () exampleExercise exampleResponded respondedWorld) = None"
proof -
  note T = ExecuteTest_on_handle_is_provider_ExecuteTest
  have a: "AddInteraction 0 exampleWorld = (Inr (UnconfiguredV2Interaction exampleInteraction 0), startedWorld)
     \<and> chain [CallWithRequest ''POST'' ''/foobar'' [], CallWillRespondWith 200 []]
        (HUnconfigured (UnconfiguredV2Interaction exampleInteraction 0)) startedWorld =
       (Inr (HWithResponse exampleResponded), respondedWorld)"
    by (simp add: AddInteraction_example WithRequest_def native_defs modify_def world_defs
        exampleResponded_def)
  have b: "fullSuccess exampleTransport exampleExercise 0 respondedWorld"
    by (simp add: fullSuccess_def loadAggregate_def exampleTransport_def exampleExercise_def
        world_defs List.map_filter_def)
  show ?thesis
    using a b
      T [THEN conjunct1, rule_format, OF a, of exampleTransport "()" exampleExercise respondedWorld]
      T [THEN conjunct2, of exampleTransport "()" exampleExercise exampleInteraction 0 respondedWorld]
    by (simp add: exampleResponded_def)
qed

subsection \<open>WillRespondWith\<close>

lemma runBuilders_Nil: "runBuilders [] h = (\<lambda>w. (Inr (), w))"
  by (rule ext) simp

lemma runBuilders_snoc:
  "runBuilders (bs @ [b]) h w = andThen (runBuilders bs h w) (\<lambda>_. b h)"
proof (induction bs arbitrary: w)
  case Nil
  show ?case by (simp add: runBuilders_Nil andThen_unit)
next
  case (Cons a bs)
  have eq: "runBuilders (bs @ [b]) h = (\<lambda>w. andThen (runBuilders bs h w) (\<lambda>_. b h))"
    using Cons.IH by (intro ext)
  show ?case by (simp add: eq andThen_assoc)
qed

text \<open>
  Claim C8. WillRespondWith sets the status before any builder runs and then applies the
  builders in the order supplied, each on a builder handle with the interaction and the
  provider of the receiver. Without builders it only sets the status; the builder supplied
  last runs after all the others, in the world they left; and the builder supplied first
  runs in the world in which the status of the response is already the given one.
\<close>

theorem WillRespondWith_status_then_builders_in_order:
  "WillRespondWith st [] (V2InteractionWithRequest i p) w =
     returning (V2InteractionWithResponse i p) (native_WithStatus st (interaction i) w)
   \<and> WillRespondWith st (bs @ [b]) (V2InteractionWithRequest i p) w =
       andThen (WillRespondWith st bs (V2InteractionWithRequest i p) w)
         (\<lambda>h w'. returning h (b (V2InteractionWithResponseBuilder i p) w'))
   \<and> (interaction i < length (heap w) \<longrightarrow>
        WillRespondWith st (b # bs) (V2InteractionWithRequest i p) w =
          returning (V2InteractionWithResponse i p)
            (andThen
               (b (V2InteractionWithResponseBuilder i p)
                  (w\<lparr>heap := (heap w)[interaction i :=
                       (heap w ! interaction i)\<lparr>response :=
                          (response (heap w ! interaction i))\<lparr>status := Some st\<rparr>\<rparr>]\<rparr>))
               (\<lambda>_. runBuilders bs (V2InteractionWithResponseBuilder i p))))"
proof (intro conjI impI)
  show "WillRespondWith st [] (V2InteractionWithRequest i p) w =
     returning (V2InteractionWithResponse i p) (native_WithStatus st (interaction i) w)"
    by (simp add: runBuilders_Nil andThen_unit)
next
  show "WillRespondWith st (bs @ [b]) (V2InteractionWithRequest i p) w =
       andThen (WillRespondWith st bs (V2InteractionWithRequest i p) w)
         (\<lambda>h w'. returning h (b (V2InteractionWithResponseBuilder i p) w'))"
    by (simp add: runBuilders_snoc andThen_returning returning_andThen andThen_assoc)
next
  assume "interaction i < length (heap w)"
  then show "WillRespondWith st (b # bs) (V2InteractionWithRequest i p) w =
          returning (V2InteractionWithResponse i p)
            (andThen
               (b (V2InteractionWithResponseBuilder i p)
                  (w\<lparr>heap := (heap w)[interaction i :=
                       (heap w ! interaction i)\<lparr>response :=
                          (response (heap w ! interaction i))\<lparr>status := Some st\<rparr>\<rparr>]\<rparr>))
               (\<lambda>_. runBuilders bs (V2InteractionWithResponseBuilder i p)))"
    by (simp add: native_WithStatus_def modify_valid)
qed

text \<open>
  On the example: two builders that set the JSON body; the status is 200 and the body is
  the one of the second builder.
\<close>

theorem WillRespondWith_status_then_builders_in_order_witness:
  "interaction exampleInteraction < length (heap requestedWorld)
   \<and> fst (WillRespondWith 200
             [responseJSON neverObject (GoMap [(''name'', String ''Billy'')]),
              responseJSON neverObject (GoMap [(''name'', String ''Sampson'')])]
             (V2InteractionWithRequest exampleInteraction 0) requestedWorld) =
       Inr (V2InteractionWithResponse exampleInteraction 0)
   \<and> response (heap (snd (WillRespondWith 200
             [responseJSON neverObject (GoMap [(''name'', String ''Billy'')]),
              responseJSON neverObject (GoMap [(''name'', String ''Sampson'')])]
             (V2InteractionWithRequest exampleInteraction 0) requestedWorld)) ! 0) =
       \<lparr>headers = [], body = BodyJSON (GoMap [(''name'', String ''Sampson'')]), status = Some 200\<rparr>"
proof -
  have a: "interaction exampleInteraction < length (heap requestedWorld)"
    by (simp add: world_defs)
  show ?thesis
    using a
      WillRespondWith_status_then_builders_in_order
        [THEN conjunct2, THEN conjunct2, rule_format, OF a, of 200
          "responseJSON neverObject (GoMap [(''name'', String ''Billy'')])"
          "[responseJSON neverObject (GoMap [(''name'', String ''Sampson'')])]" 0]
    by (simp add: responseJSON_def validateMatchers_def native_defs modify_def world_defs)
qed

subsection \<open>WithRequest\<close>

text \<open>
  Claim C9. WithRequest with a plain string path gives the same result, handle and world,
  as WithRequestPathMatcher with the matcher \<open>String path\<close>, for every method, builder
  sequence, receiver and world; the two calls are also accepted and rejected on the same
  handles. Without builders the call returns the V2InteractionWithRequest handle and sets
  the method and the path \<open>String path\<close> of the request.
\<close>

theorem WithRequest_is_WithRequestPathMatcher_on_String:
  "WithRequest m pth bs u w = WithRequestPathMatcher m (String pth) bs u w
   \<and> invoke (CallWithRequest m pth bs) h w = invoke (CallWithRequestPathMatcher m (String pth) bs) h w
   \<and> fst (WithRequest m pth [] (UnconfiguredV2Interaction i p) w) =
       (if interaction i < length (heap w) then Inr (V2InteractionWithRequest i p)
        else Inl NilPointerDereference)
   \<and> (interaction i < length (heap w) \<longrightarrow>
        request (heap (snd (WithRequest m pth [] (UnconfiguredV2Interaction i p) w)) ! interaction i) =
          (request (heap w ! interaction i))\<lparr>method := m, path := Some (String pth)\<rparr>)"
proof (intro conjI impI)
  show "WithRequest m pth bs u w = WithRequestPathMatcher m (String pth) bs u w"
    by (simp add: WithRequest_def)
  show "invoke (CallWithRequest m pth bs) h w = invoke (CallWithRequestPathMatcher m (String pth) bs) h w"
    by (cases h) (simp_all add: WithRequest_def)
  show "fst (WithRequest m pth [] (UnconfiguredV2Interaction i p) w) =
       (if interaction i < length (heap w) then Inr (V2InteractionWithRequest i p)
        else Inl NilPointerDereference)"
    by (simp add: WithRequest_def native_WithRequest_def modify_def)
next
  assume "interaction i < length (heap w)"
  then show "request (heap (snd (WithRequest m pth [] (UnconfiguredV2Interaction i p) w)) ! interaction i) =
          (request (heap w ! interaction i))\<lparr>method := m, path := Some (String pth)\<rparr>"
    by (simp add: WithRequest_def native_WithRequest_def modify_def)
qed

text \<open>
  On the example: both methods lead from the fresh interaction to the same world.
\<close>

theorem WithRequest_is_WithRequestPathMatcher_on_String_witness:
  "interaction exampleInteraction < length (heap startedWorld)
   \<and> request (heap (snd (WithRequest ''POST'' ''/foobar'' []
        (UnconfiguredV2Interaction exampleInteraction 0) startedWorld)) ! 0) =
       \<lparr>headers = [], body = NoBody, method = ''POST'', path = Some (String ''/foobar''), query = []\<rparr>
   \<and> WithRequest ''POST'' ''/foobar'' [] (UnconfiguredV2Interaction exampleInteraction 0) startedWorld =
       (Inr (V2InteractionWithRequest exampleInteraction 0), requestedWorld)
   \<and> WithRequestPathMatcher ''POST'' (String ''/foobar'') []
        (UnconfiguredV2Interaction exampleInteraction 0) startedWorld =
       (Inr (V2InteractionWithRequest exampleInteraction 0), requestedWorld)"
proof -
  note T = WithRequest_is_WithRequestPathMatcher_on_String
  have a: "interaction exampleInteraction < length (heap startedWorld)"
    by (simp add: world_defs)
  have b: "WithRequestPathMatcher ''POST'' (String ''/foobar'') []
        (UnconfiguredV2Interaction exampleInteraction 0) startedWorld =
       (Inr (V2InteractionWithRequest exampleInteraction 0), requestedWorld)"
    by (simp add: native_defs modify_def world_defs)
  show ?thesis
    using a b
      T [THEN conjunct1, of "''POST''" "''/foobar''" "[]"
          "UnconfiguredV2Interaction exampleInteraction 0" startedWorld]
      T [THEN conjunct2, THEN conjunct2, THEN conjunct2, rule_format, OF a, of "''POST''" "''/foobar''" 0]
    by (simp add: world_defs)
qed

subsection \<open>The check for JSON formatted object strings\<close>

lemma warnIfObject_frame:
  "heap (warnIfObject P msg b w) = heap w \<and> providers (warnIfObject P msg b w) = providers w"
  by (cases b) (simp_all add: Println_def)

lemma warnIfObject_log:
  "log (warnIfObject P msg (GoString s) w) = log w @ (if P s then [msg] else [])"
  by (simp add: Println_def)

lemma modify_frame:
  "heap w1 = heap w2 \<Longrightarrow> providers w1 = providers w2 \<Longrightarrow>
   sameOutcome (returning h (modify a f w1)) (returning h (modify a f w2))"
  by (simp add: sameOutcome_def modify_def)

lemma modify_log: "log (snd (returning h (modify a f w))) = log w"
  by (simp add: modify_def)

lemma sameOutcome_refl: "sameOutcome r r"
  by (simp add: sameOutcome_def)

lemma Request_JSONBody_frame:
  "sameOutcome (RequestBuilder_JSONBody P b rb w) (RequestBuilder_JSONBody Q b rb w)"
proof (cases rb)
  case (V2InteractionWithRequestBuilder i p)
  show ?thesis
    unfolding V2InteractionWithRequestBuilder
    by (cases "validateMatchers (specificationVersion i) b")
      (simp_all add: sameOutcome_refl native_WithJSONRequestBody_def setRequestBody_def
        modify_frame warnIfObject_frame)
qed

lemma Response_JSONBody_frame:
  "sameOutcome (ResponseBuilder_JSONBody P b sb w) (ResponseBuilder_JSONBody Q b sb w)"
proof (cases sb)
  case (V2InteractionWithResponseBuilder i p)
  show ?thesis
    unfolding V2InteractionWithResponseBuilder
    by (cases "validateMatchers (specificationVersion i) b")
      (simp_all add: sameOutcome_refl native_WithJSONResponseBody_def setResponseBody_def
        modify_frame warnIfObject_frame)
qed

lemma Request_Body_frame:
  "sameOutcome (RequestBuilder_Body P ct bs rb w) (RequestBuilder_Body Q ct bs rb w)"
proof (cases rb)
  case (V2InteractionWithRequestBuilder i p)
  show ?thesis
    unfolding V2InteractionWithRequestBuilder
    by (simp add: native_WithRequestBody_def setRequestBody_def modify_frame Println_def)
qed

text \<open>
  Claim C10. Whatever \<^verbatim>\<open>IsJSONFormattedObject\<close> answers, JSONBody (on the request and
  on the response builder) and Body (on the request builder) return the same handle or panic
  and leave the same interactions and providers: the answer decides one line of the log and
  nothing else. A string body always passes the validation of JSONBody, and when the
  interaction exists the body is registered, whether or not the warning is written.
\<close>

theorem JSON_object_check_only_logs:
  "sameOutcome (RequestBuilder_JSONBody P b rb w) (RequestBuilder_JSONBody Q b rb w)
   \<and> sameOutcome (ResponseBuilder_JSONBody P b sb w) (ResponseBuilder_JSONBody Q b sb w)
   \<and> sameOutcome (RequestBuilder_Body P ct bs rb w) (RequestBuilder_Body Q ct bs rb w)
   \<and> log (snd (RequestBuilder_JSONBody P (GoString s) rb w)) =
       log w @ (if P s then [requestWarning] else [])
   \<and> log (snd (ResponseBuilder_JSONBody P (GoString s) sb w)) =
       log w @ (if P s then [responseWarning] else [])
   \<and> log (snd (RequestBuilder_Body P ct bs rb w)) =
       log w @ (if P (bytesToString bs) then [requestWarning] else [])
   \<and> (interaction i < length (heap w) \<longrightarrow>
        fst (RequestBuilder_JSONBody P (GoString s) (V2InteractionWithRequestBuilder i p) w) =
          Inr (V2InteractionWithRequestBuilder i p)
        \<and> body (request (heap (snd (RequestBuilder_JSONBody P (GoString s)
                 (V2InteractionWithRequestBuilder i p) w)) ! interaction i)) = BodyJSON (GoString s)
        \<and> fst (ResponseBuilder_JSONBody P (GoString s) (V2InteractionWithResponseBuilder i p) w) =
          Inr (V2InteractionWithResponseBuilder i p)
        \<and> body (response (heap (snd (ResponseBuilder_JSONBody P (GoString s)
                 (V2InteractionWithResponseBuilder i p) w)) ! interaction i)) = BodyJSON (GoString s)
        \<and> fst (RequestBuilder_Body P ct bs (V2InteractionWithRequestBuilder i p) w) =
          Inr (V2InteractionWithRequestBuilder i p)
        \<and> body (request (heap (snd (RequestBuilder_Body P ct bs
                 (V2InteractionWithRequestBuilder i p) w)) ! interaction i)) = BodyRaw ct bs)"
proof (intro conjI impI)
  show "sameOutcome (RequestBuilder_JSONBody P b rb w) (RequestBuilder_JSONBody Q b rb w)"
    by (rule Request_JSONBody_frame)
  show "sameOutcome (ResponseBuilder_JSONBody P b sb w) (ResponseBuilder_JSONBody Q b sb w)"
    by (rule Response_JSONBody_frame)
  show "sameOutcome (RequestBuilder_Body P ct bs rb w) (RequestBuilder_Body Q ct bs rb w)"
    by (rule Request_Body_frame)
  show "log (snd (RequestBuilder_JSONBody P (GoString s) rb w)) =
       log w @ (if P s then [requestWarning] else [])"
    by (cases rb)
      (simp add: validateMatchers_GoString native_WithJSONRequestBody_def setRequestBody_def
        modify_def Println_def)
  show "log (snd (ResponseBuilder_JSONBody P (GoString s) sb w)) =
       log w @ (if P s then [responseWarning] else [])"
    by (cases sb)
      (simp add: validateMatchers_GoString native_WithJSONResponseBody_def setResponseBody_def
        modify_def Println_def)
  show "log (snd (RequestBuilder_Body P ct bs rb w)) =
       log w @ (if P (bytesToString bs) then [requestWarning] else [])"
    by (cases rb) (simp add: native_WithRequestBody_def setRequestBody_def modify_def Println_def)
next
  assume a: "interaction i < length (heap w)"
  show "fst (RequestBuilder_JSONBody P (GoString s) (V2InteractionWithRequestBuilder i p) w) =
          Inr (V2InteractionWithRequestBuilder i p)"
    using a by (simp add: validateMatchers_GoString native_WithJSONRequestBody_def
        setRequestBody_def modify_def Println_def)
  show "body (request (heap (snd (RequestBuilder_JSONBody P (GoString s)
                 (V2InteractionWithRequestBuilder i p) w)) ! interaction i)) = BodyJSON (GoString s)"
    using a by (simp add: validateMatchers_GoString native_WithJSONRequestBody_def
        setRequestBody_def modify_def Println_def)
  show "fst (ResponseBuilder_JSONBody P (GoString s) (V2InteractionWithResponseBuilder i p) w) =
          Inr (V2InteractionWithResponseBuilder i p)"
    using a by (simp add: validateMatchers_GoString native_WithJSONResponseBody_def
        setResponseBody_def modify_def Println_def)
  show "body (response (heap (snd (ResponseBuilder_JSONBody P (GoString s)
                 (V2InteractionWithResponseBuilder i p) w)) ! interaction i)) = BodyJSON (GoString s)"
    using a by (simp add: validateMatchers_GoString native_WithJSONResponseBody_def
        setResponseBody_def modify_def Println_def)
  show "fst (RequestBuilder_Body P ct bs (V2InteractionWithRequestBuilder i p) w) =
          Inr (V2InteractionWithRequestBuilder i p)"
    using a by (simp add: native_WithRequestBody_def setRequestBody_def modify_def Println_def)
  show "body (request (heap (snd (RequestBuilder_Body P ct bs
                 (V2InteractionWithRequestBuilder i p) w)) ! interaction i)) = BodyRaw ct bs"
    using a by (simp add: native_WithRequestBody_def setRequestBody_def modify_def Println_def)
qed

text \<open>
  On the example: the string \<open>''{}''\<close> as a JSON body, once taken for an object and once
  not.
\<close>

theorem JSON_object_check_only_logs_witness:
  "interaction exampleInteraction < length (heap startedWorld)
   \<and> fst (RequestBuilder_JSONBody alwaysObject (GoString ''{}'')
             (V2InteractionWithRequestBuilder exampleInteraction 0) startedWorld) =
       Inr (V2InteractionWithRequestBuilder exampleInteraction 0)
   \<and> body (request (heap (snd (RequestBuilder_JSONBody alwaysObject (GoString ''{}'')
             (V2InteractionWithRequestBuilder exampleInteraction 0) startedWorld)) ! 0)) =
       BodyJSON (GoString ''{}'')
   \<and> body (request (heap (snd (RequestBuilder_JSONBody neverObject (GoString ''{}'')
             (V2InteractionWithRequestBuilder exampleInteraction 0) startedWorld)) ! 0)) =
       BodyJSON (GoString ''{}'')
   \<and> log (snd (RequestBuilder_JSONBody alwaysObject (GoString ''{}'')
             (V2InteractionWithRequestBuilder exampleInteraction 0) startedWorld)) =
       [''[DEBUG] pact add V2 interaction'', requestWarning]
   \<and> log (snd (RequestBuilder_JSONBody neverObject (GoString ''{}'')
             (V2InteractionWithRequestBuilder exampleInteraction 0) startedWorld)) =
       [''[DEBUG] pact add V2 interaction'']"
proof -
  note T = JSON_object_check_only_logs
  have a: "interaction exampleInteraction < length (heap startedWorld)"
    by (simp add: world_defs)
  note T7 = T [THEN conjunct2, THEN conjunct2, THEN conjunct2, THEN conjunct2, THEN conjunct2,
      THEN conjunct2, rule_format, OF a]
  note T4 = T [THEN conjunct2, THEN conjunct2, THEN conjunct2, THEN conjunct1]
  show ?thesis
    using a
      T7 [of alwaysObject "''{}''" 0] T7 [of neverObject "''{}''" 0]
      T4 [of alwaysObject "''{}''" "V2InteractionWithRequestBuilder exampleInteraction 0" startedWorld]
      T4 [of neverObject "''{}''" "V2InteractionWithRequestBuilder exampleInteraction 0" startedWorld]
    by (simp add: world_defs)
qed

end
